theory Spec2Isabelle
  imports Main
begin

section \<open>Data model\<close>

subsection \<open>Typed provisioning errors\<close>

text \<open>
  The error classes are imported from \<^verbatim>\<open>./errors\<close>; the operations only construct
  them. An error value is modelled by the class that is constructed together with the
  arguments of the \<^verbatim>\<open>new\<close> expression, in the order the source passes them. The
  optional trailing argument (the inner error) is \<open>Some e\<close> when the source passes the
  caught value \<open>e\<close> and \<open>None\<close> when the source omits it.

  The string constants \<^verbatim>\<open>CommonStrings.MS_TEAMS_CHANNEL\<close>,
  \<^verbatim>\<open>CommonStrings.AZURE_WEB_APP\<close> and \<^verbatim>\<open>ConfigNames.AZURE_WEB_APP_AUTH_CONFIGS\<close>
  come from \<^verbatim>\<open>./resources/strings\<close>; they are kept symbolic.
\<close>

datatype CommonStrings = MS_TEAMS_CHANNEL | AZURE_WEB_APP

datatype ConfigNames = AZURE_WEB_APP_AUTH_CONFIGS

datatype 'e ProvisioningError =
    ProvisionError CommonStrings "'e option"
  | ConfigUpdatingError ConfigNames "'e option"
  | ListPublishingCredentialsError "'e option"
  | ZipDeployError "'e option"
  | MessageEndpointUpdatingError string "'e option"
  | RestartWebAppError "'e option"
  | DeployStatusError "'e option"
  | DeployTimeoutError

subsection \<open>Outcome of an awaited collaborator call\<close>

text \<open>
  \<^verbatim>\<open>await f(...)\<close> inside \<^verbatim>\<open>try\<close> either throws a value \<open>e\<close> (\<open>Raised e\<close>) or
  yields a value that the source then tests for truthiness: \<open>Returned None\<close> is a
  nullish value, \<open>Returned (Some r)\<close> a response object.
\<close>

datatype ('e, 'r) awaited = Raised 'e | Returned "'r option"

text \<open>
  A response of the resource-management client: \<^verbatim>\<open>r._response.status\<close> and the
  rest of the object, which the operations hand back untouched.
\<close>

record 'b RestResponse =
  response_status :: int
  body :: 'b

text \<open>A response of the HTTP transport: \<^verbatim>\<open>res.status\<close> and \<^verbatim>\<open>res.headers.location\<close>.\<close>

record AxiosResponse =
  status :: int
  headers_location :: string

text \<open>The argument objects built by the first two operations.\<close>

record BotProperties =
  displayName :: string
  endpoint :: string
  msaAppId :: string

record BotChannel =
  location :: string
  kind :: string
  channelName :: string
  isEnabled :: bool

subsection \<open>Status classification\<close>

text \<open>
  Modelled from the spec: \<^verbatim>\<open>utils.isHttpCodeOkOrCreated\<close> and
  \<^verbatim>\<open>utils.isHttpCodeAccepted\<close> live in \<^verbatim>\<open>./utils/common\<close>, which is not among the
  sources. The spec names the classes \<open>OkOrCreated\<close> (glossed as 2xx, terminal
  success), \<open>Accepted\<close> (202, pending) and \<open>Other\<close>, and requires that every status
  code has exactly one class, so 202 is not \<open>OkOrCreated\<close>. The codes taken for
  \<open>OkOrCreated\<close> are the two the name stands for, 200 (OK) and 201 (Created), which are
  also the success codes of the spec's end-to-end scenario.
\<close>

definition isHttpCodeOkOrCreated :: "int \<Rightarrow> bool" where
  "isHttpCodeOkOrCreated code = (code = 200 \<or> code = 201)"

definition isHttpCodeAccepted :: "int \<Rightarrow> bool" where
  "isHttpCodeAccepted code = (code = 202)"

datatype HttpStatusClass = OkOrCreated | Accepted | Other

text \<open>
  The three-way branch of \<^verbatim>\<open>CheckDeployStatus\<close> (lines 166--172), as a function of the
  status code: the accepted test comes first, then the ok-or-created test.
\<close>

definition classify :: "int \<Rightarrow> HttpStatusClass" where
  "classify code =
     (if isHttpCodeAccepted code then Accepted
      else if isHttpCodeOkOrCreated code then OkOrCreated
      else Other)"

section \<open>The operations of \<^verbatim>\<open>AzureOperations\<close>\<close>

text \<open>
  Each operation receives the collaborator method it awaits as a function from the
  arguments the source passes to the outcome of the call. A thrown error is \<open>Inl\<close>,
  a normal return \<open>Inr\<close>.
\<close>

definition UpdateBotChannelRegistration ::
  "(string \<Rightarrow> string \<Rightarrow> BotProperties \<Rightarrow> ('e, 'b RestResponse) awaited) \<Rightarrow>
   string \<Rightarrow> string \<Rightarrow> string \<Rightarrow> string \<Rightarrow> string option \<Rightarrow> 'e ProvisioningError + unit" where
  "UpdateBotChannelRegistration bots_update resourceGroup botChannelRegistrationName
      appId endpointUrl displayNameOpt =
     (case bots_update resourceGroup botChannelRegistrationName
             \<lparr>displayName = (case displayNameOpt of
                               None \<Rightarrow> botChannelRegistrationName
                             | Some d \<Rightarrow> d),
              endpoint = endpointUrl,
              msaAppId = appId\<rparr> of
        Raised e \<Rightarrow> Inl (MessageEndpointUpdatingError endpointUrl (Some e))
      | Returned botResponse \<Rightarrow>
          (case botResponse of
             None \<Rightarrow> Inl (MessageEndpointUpdatingError endpointUrl None)
           | Some r \<Rightarrow>
               if \<not> isHttpCodeOkOrCreated (response_status r)
               then Inl (MessageEndpointUpdatingError endpointUrl None)
               else Inr ()))"

definition LinkTeamsChannel ::
  "(string \<Rightarrow> string \<Rightarrow> string \<Rightarrow> BotChannel \<Rightarrow> ('e, 'b RestResponse) awaited) \<Rightarrow>
   string \<Rightarrow> string \<Rightarrow> 'e ProvisioningError + unit" where
  "LinkTeamsChannel channels_create resourceGroup botChannelRegistrationName =
     (case channels_create resourceGroup botChannelRegistrationName ''MsTeamsChannel''
             \<lparr>location = ''global'', kind = ''bot'',
              channelName = ''MsTeamsChannel'', isEnabled = True\<rparr> of
        Raised e \<Rightarrow> Inl (ProvisionError MS_TEAMS_CHANNEL (Some e))
      | Returned channelResponse \<Rightarrow>
          (case channelResponse of
             None \<Rightarrow> Inl (ProvisionError MS_TEAMS_CHANNEL None)
           | Some r \<Rightarrow>
               if \<not> isHttpCodeOkOrCreated (response_status r)
               then Inl (ProvisionError MS_TEAMS_CHANNEL None)
               else Inr ()))"

text \<open>
  The parameter \<^verbatim>\<open>update?: boolean\<close> is optional; \<^verbatim>\<open>!update\<close> holds when it is
  omitted or \<^verbatim>\<open>false\<close>.
\<close>

definition not_update :: "bool option \<Rightarrow> bool" where
  "not_update update = (case update of None \<Rightarrow> True | Some b \<Rightarrow> \<not> b)"

definition CreateOrUpdateAzureWebApp ::
  "(string \<Rightarrow> string \<Rightarrow> 's \<Rightarrow> ('e, 'b RestResponse) awaited) \<Rightarrow>
   string \<Rightarrow> string \<Rightarrow> 's \<Rightarrow> bool option \<Rightarrow> 'e ProvisioningError + 'b RestResponse" where
  "CreateOrUpdateAzureWebApp webApps_createOrUpdate resourceGroup siteName siteEnvelope update =
     (case webApps_createOrUpdate resourceGroup siteName siteEnvelope of
        Raised e \<Rightarrow>
          if not_update update
          then Inl (ProvisionError AZURE_WEB_APP (Some e))
          else Inl (ConfigUpdatingError AZURE_WEB_APP_AUTH_CONFIGS (Some e))
      | Returned webappResponse \<Rightarrow>
          (case webappResponse of
             None \<Rightarrow>
               if not_update update
               then Inl (ProvisionError AZURE_WEB_APP None)
               else Inl (ConfigUpdatingError AZURE_WEB_APP_AUTH_CONFIGS None)
           | Some r \<Rightarrow>
               if \<not> isHttpCodeOkOrCreated (response_status r)
               then (if not_update update
                     then Inl (ProvisionError AZURE_WEB_APP None)
                     else Inl (ConfigUpdatingError AZURE_WEB_APP_AUTH_CONFIGS None))
               else Inr r))"

definition ListPublishingCredentials ::
  "(string \<Rightarrow> string \<Rightarrow> ('e, 'b RestResponse) awaited) \<Rightarrow>
   string \<Rightarrow> string \<Rightarrow> 'e ProvisioningError + 'b RestResponse" where
  "ListPublishingCredentials webApps_listPublishingCredentials resourceGroup siteName =
     (case webApps_listPublishingCredentials resourceGroup siteName of
        Raised e \<Rightarrow> Inl (ListPublishingCredentialsError (Some e))
      | Returned listResponse \<Rightarrow>
          (case listResponse of
             None \<Rightarrow> Inl (ListPublishingCredentialsError None)
           | Some r \<Rightarrow>
               if \<not> isHttpCodeOkOrCreated (response_status r)
               then Inl (ListPublishingCredentialsError None)
               else Inr r))"

text \<open>The push tests the response with \<^verbatim>\<open>isHttpCodeAccepted\<close> (line 149).\<close>

definition ZipDeployPackage ::
  "(string \<Rightarrow> 'z \<Rightarrow> 'c \<Rightarrow> ('e, AxiosResponse) awaited) \<Rightarrow>
   string \<Rightarrow> 'z \<Rightarrow> 'c \<Rightarrow> 'e ProvisioningError + string" where
  "ZipDeployPackage axios_post zipDeployEndpoint zipBuffer config =
     (case axios_post zipDeployEndpoint zipBuffer config of
        Raised e \<Rightarrow> Inl (ZipDeployError (Some e))
      | Returned res \<Rightarrow>
          (case res of
             None \<Rightarrow> Inl (ZipDeployError None)
           | Some r \<Rightarrow>
               if \<not> isHttpCodeAccepted (status r)
               then Inl (ZipDeployError None)
               else Inr (headers_location r)))"

definition RestartWebApp ::
  "(string \<Rightarrow> string \<Rightarrow> ('e, 'b RestResponse) awaited) \<Rightarrow>
   string \<Rightarrow> string \<Rightarrow> 'e ProvisioningError + unit" where
  "RestartWebApp webApps_restart resourceGroup siteName =
     (case webApps_restart resourceGroup siteName of
        Raised e \<Rightarrow> Inl (RestartWebAppError (Some e))
      | Returned res \<Rightarrow>
          (case res of
             None \<Rightarrow> Inl (RestartWebAppError None)
           | Some r \<Rightarrow>
               if \<not> isHttpCodeOkOrCreated (response_status r)
               then Inl (RestartWebAppError None)
               else Inr ()))"

section \<open>The deployment status poller\<close>

text \<open>
  \<^verbatim>\<open>CheckDeployStatus\<close> issues the same GET repeatedly, so the transport is a function
  of the number of GETs already issued as well as of the arguments. The observable
  effects are recorded in a state: how many GETs were issued and which
  \<^verbatim>\<open>waitSeconds\<close> calls were made, in order.

  \<^verbatim>\<open>DeployStatus.RETRY_TIMES\<close> and \<^verbatim>\<open>DeployStatus.BACKOFF_TIME_S\<close> come from
  \<^verbatim>\<open>./constants\<close>; they are parameters here, a number of attempts and a number of
  seconds. The loop counter \<open>i\<close> starts at 0 and is incremented once per iteration; the
  variable \<^verbatim>\<open>res\<close> is assigned in every iteration before it is read, so it is local to
  the iteration.
\<close>

record effects =
  gets :: nat
  sleeps :: "nat list"

function CheckDeployStatus_loop ::
  "nat \<Rightarrow> nat \<Rightarrow> (nat \<Rightarrow> string \<Rightarrow> 'c \<Rightarrow> ('e, AxiosResponse) awaited) \<Rightarrow>
   string \<Rightarrow> 'c \<Rightarrow> nat \<Rightarrow> effects \<Rightarrow> ('e ProvisioningError + unit) \<times> effects" where
  "CheckDeployStatus_loop RETRY_TIMES BACKOFF_TIME_S axios_get loc config i s =
     (if i < RETRY_TIMES then
        (case axios_get (gets s) loc config of
           Raised e \<Rightarrow> (Inl (DeployStatusError (Some e)), s\<lparr>gets := Suc (gets s)\<rparr>)
         | Returned res \<Rightarrow>
             (case res of
                None \<Rightarrow>
                  CheckDeployStatus_loop RETRY_TIMES BACKOFF_TIME_S axios_get loc config
                    (Suc i) (s\<lparr>gets := Suc (gets s)\<rparr>)
              | Some r \<Rightarrow>
                  if isHttpCodeAccepted (status r) then
                    CheckDeployStatus_loop RETRY_TIMES BACKOFF_TIME_S axios_get loc config
                      (Suc i)
                      (s\<lparr>gets := Suc (gets s), sleeps := sleeps s @ [BACKOFF_TIME_S]\<rparr>)
                  else if isHttpCodeOkOrCreated (status r) then
                    (Inr (), s\<lparr>gets := Suc (gets s)\<rparr>)
                  else
                    (Inl (DeployStatusError None), s\<lparr>gets := Suc (gets s)\<rparr>)))
      else (Inl DeployTimeoutError, s))"
  by pat_completeness auto
termination
  by (relation "measure (\<lambda>(RETRY_TIMES, _, _, _, _, i, _). RETRY_TIMES - i)") auto

definition CheckDeployStatus ::
  "nat \<Rightarrow> nat \<Rightarrow> (nat \<Rightarrow> string \<Rightarrow> 'c \<Rightarrow> ('e, AxiosResponse) awaited) \<Rightarrow>
   string \<Rightarrow> 'c \<Rightarrow> ('e ProvisioningError + unit) \<times> effects" where
  "CheckDeployStatus RETRY_TIMES BACKOFF_TIME_S axios_get loc config =
     CheckDeployStatus_loop RETRY_TIMES BACKOFF_TIME_S axios_get loc config 0
       \<lparr>gets = 0, sleeps = []\<rparr>"

section \<open>One iteration of the polling loop\<close>

text \<open>
  The defining equation of the loop is not a simplification rule; the lemmas below give
  the result of one iteration for each branch of the source.
\<close>

declare CheckDeployStatus_loop.simps [simp del]

lemma loop_exhausted:
  "\<not> i < R \<Longrightarrow> CheckDeployStatus_loop R B g loc cfg i s = (Inl DeployTimeoutError, s)"
  by (subst CheckDeployStatus_loop.simps) simp

lemma loop_raised:
  "i < R \<Longrightarrow> g (gets s) loc cfg = Raised e \<Longrightarrow>
   CheckDeployStatus_loop R B g loc cfg i s =
     (Inl (DeployStatusError (Some e)), s\<lparr>gets := Suc (gets s)\<rparr>)"
  by (subst CheckDeployStatus_loop.simps) simp

lemma loop_nullish:
  "i < R \<Longrightarrow> g (gets s) loc cfg = Returned None \<Longrightarrow>
   CheckDeployStatus_loop R B g loc cfg i s =
     CheckDeployStatus_loop R B g loc cfg (Suc i) (s\<lparr>gets := Suc (gets s)\<rparr>)"
  by (subst CheckDeployStatus_loop.simps) simp

lemma loop_accepted:
  "i < R \<Longrightarrow> g (gets s) loc cfg = Returned (Some r) \<Longrightarrow> isHttpCodeAccepted (status r) \<Longrightarrow>
   CheckDeployStatus_loop R B g loc cfg i s =
     CheckDeployStatus_loop R B g loc cfg (Suc i)
       (s\<lparr>gets := Suc (gets s), sleeps := sleeps s @ [B]\<rparr>)"
  by (subst CheckDeployStatus_loop.simps) simp

lemma loop_ok:
  "i < R \<Longrightarrow> g (gets s) loc cfg = Returned (Some r) \<Longrightarrow> \<not> isHttpCodeAccepted (status r) \<Longrightarrow>
   isHttpCodeOkOrCreated (status r) \<Longrightarrow>
   CheckDeployStatus_loop R B g loc cfg i s = (Inr (), s\<lparr>gets := Suc (gets s)\<rparr>)"
  by (subst CheckDeployStatus_loop.simps) simp

lemma loop_other:
  "i < R \<Longrightarrow> g (gets s) loc cfg = Returned (Some r) \<Longrightarrow> \<not> isHttpCodeAccepted (status r) \<Longrightarrow>
   \<not> isHttpCodeOkOrCreated (status r) \<Longrightarrow>
   CheckDeployStatus_loop R B g loc cfg i s =
     (Inl (DeployStatusError None), s\<lparr>gets := Suc (gets s)\<rparr>)"
  by (subst CheckDeployStatus_loop.simps) simp

lemma status_facts:
  "isHttpCodeAccepted 202" "\<not> isHttpCodeAccepted 200" "isHttpCodeOkOrCreated 200"
  "\<not> isHttpCodeAccepted 500" "\<not> isHttpCodeOkOrCreated 500"
  by (simp_all add: isHttpCodeAccepted_def isHttpCodeOkOrCreated_def)

text \<open>
  The branch taken on a response is the class of its status code.
\<close>

lemma loop_step_by_class:
  "i < R \<Longrightarrow> g (gets s) loc cfg = Returned (Some r) \<Longrightarrow>
   CheckDeployStatus_loop R B g loc cfg i s =
     (case classify (status r) of
        Accepted \<Rightarrow>
          CheckDeployStatus_loop R B g loc cfg (Suc i)
            (s\<lparr>gets := Suc (gets s), sleeps := sleeps s @ [B]\<rparr>)
      | OkOrCreated \<Rightarrow> (Inr (), s\<lparr>gets := Suc (gets s)\<rparr>)
      | Other \<Rightarrow> (Inl (DeployStatusError None), s\<lparr>gets := Suc (gets s)\<rparr>))"
  by (subst CheckDeployStatus_loop.simps) (simp add: classify_def)

section \<open>Runs of the polling loop\<close>

text \<open>
  A prefix of \<open>k\<close> polls that each yield a nullish value or an accepted response takes
  the loop from iteration \<open>i\<close> to iteration \<open>i + k\<close>; one sleep is recorded for every
  response of the prefix that is not nullish.
\<close>

lemma loop_continue_prefix:
  assumes "i + k \<le> R"
    and "\<forall>j<k. g (gets s + j) loc cfg = Returned None \<or>
           (\<exists>r. g (gets s + j) loc cfg = Returned (Some r) \<and> isHttpCodeAccepted (status r))"
  shows "CheckDeployStatus_loop R B g loc cfg i s =
         CheckDeployStatus_loop R B g loc cfg (i + k)
           (s\<lparr>gets := gets s + k,
              sleeps := sleeps s @
                replicate (length (filter (\<lambda>j. g (gets s + j) loc cfg \<noteq> Returned None) [0..<k])) B\<rparr>)"
  using assms
proof (induction k)
  case 0
  then show ?case by simp
next
  case (Suc k)
  let ?L = "CheckDeployStatus_loop R B g loc cfg"
  let ?n = "length (filter (\<lambda>j. g (gets s + j) loc cfg \<noteq> Returned None) [0..<k])"
  let ?sk = "s\<lparr>gets := gets s + k, sleeps := sleeps s @ replicate ?n B\<rparr>"
  have lt: "i + k < R" using Suc.prems(1) by simp
  have ih: "?L i s = ?L (i + k) ?sk"
    using Suc.IH Suc.prems by simp
  have here: "g (gets s + k) loc cfg = Returned None \<or>
      (\<exists>r. g (gets s + k) loc cfg = Returned (Some r) \<and> isHttpCodeAccepted (status r))"
    using Suc.prems(2) by simp
  then show ?case
  proof
    assume n: "g (gets s + k) loc cfg = Returned None"
    then have "?L (i + k) ?sk = ?L (Suc (i + k)) (?sk\<lparr>gets := Suc (gets ?sk)\<rparr>)"
      using lt by (intro loop_nullish) simp_all
    with ih n show ?thesis by (cases s) simp
  next
    assume "\<exists>r. g (gets s + k) loc cfg = Returned (Some r) \<and> isHttpCodeAccepted (status r)"
    then obtain r where r: "g (gets s + k) loc cfg = Returned (Some r)"
      and a: "isHttpCodeAccepted (status r)" by blast
    have "?L (i + k) ?sk =
          ?L (Suc (i + k)) (?sk\<lparr>gets := Suc (gets ?sk), sleeps := sleeps ?sk @ [B]\<rparr>)"
      using lt r a by (intro loop_accepted [where r = r]) simp_all
    with ih r show ?thesis by (cases s) (simp add: replicate_append_same)
  qed
qed

lemma loop_bounds:
  "case CheckDeployStatus_loop R B g loc cfg i s of (res, s') \<Rightarrow>
     gets s' \<le> gets s + (R - i)
     \<and> (\<exists>n. n \<le> R - i \<and> sleeps s' = sleeps s @ replicate n B)
     \<and> (res = Inr () \<or> (\<exists>c. res = Inl (DeployStatusError c))
          \<or> (res = Inl DeployTimeoutError \<and> gets s' = gets s + (R - i)))"
proof (induction R B g loc cfg i s rule: CheckDeployStatus_loop.induct)
  case (1 R B g loc cfg i s)
  let ?L = "CheckDeployStatus_loop R B g loc cfg"
  show ?case
  proof (cases "i < R")
    case False
    then show ?thesis by (simp add: loop_exhausted)
  next
    case lt: True
    show ?thesis
    proof (cases "g (gets s) loc cfg")
      case (Raised e)
      with lt show ?thesis by (simp add: loop_raised)
    next
      case (Returned res)
      show ?thesis
      proof (cases res)
        case None
        with Returned lt have eq: "?L i s = ?L (Suc i) (s\<lparr>gets := Suc (gets s)\<rparr>)"
          by (simp add: loop_nullish)
        from "1.IH"(1) [OF lt Returned None] lt show ?thesis
          unfolding eq by (auto split: prod.splits intro: le_SucI)
      next
        case (Some r)
        show ?thesis
        proof (cases "isHttpCodeAccepted (status r)")
          case True
          with Returned Some lt have eq: "?L i s =
              ?L (Suc i) (s\<lparr>gets := Suc (gets s), sleeps := sleeps s @ [B]\<rparr>)"
            by (simp add: loop_accepted)
          obtain res' s' where rs: "?L (Suc i)
              (s\<lparr>gets := Suc (gets s), sleeps := sleeps s @ [B]\<rparr>) = (res', s')"
            by (cases "?L (Suc i) (s\<lparr>gets := Suc (gets s), sleeps := sleeps s @ [B]\<rparr>)")
          from "1.IH"(2) [OF lt Returned Some True] rs
          obtain n where g: "gets s' \<le> Suc (gets s) + (R - Suc i)"
            and n: "n \<le> R - Suc i" "sleeps s' = (sleeps s @ [B]) @ replicate n B"
            and k: "res' = Inr () \<or> (\<exists>c. res' = Inl (DeployStatusError c))
                \<or> (res' = Inl DeployTimeoutError \<and> gets s' = Suc (gets s) + (R - Suc i))"
            by auto
          have "Suc n \<le> R - i" using n(1) lt by simp
          moreover have "sleeps s' = sleeps s @ replicate (Suc n) B" using n(2) by simp
          ultimately have "\<exists>m. m \<le> R - i \<and> sleeps s' = sleeps s @ replicate m B" by blast
          moreover have "gets s' \<le> gets s + (R - i)" using g lt by simp
          moreover have "res' = Inr () \<or> (\<exists>c. res' = Inl (DeployStatusError c))
                \<or> (res' = Inl DeployTimeoutError \<and> gets s' = gets s + (R - i))"
            using k lt by auto
          ultimately show ?thesis unfolding eq rs by simp
        next
          case na: False
          show ?thesis
          proof (cases "isHttpCodeOkOrCreated (status r)")
            case True
            with na Returned Some lt show ?thesis by (simp add: loop_ok [where r = r])
          next
            case False
            with na Returned Some lt show ?thesis by (simp add: loop_other [where r = r])
          qed
        qed
      qed
    qed
  qed
qed


text \<open>
  The sleeps of a run are one backoff for each accepted response among the GETs issued.
\<close>

lemma loop_sleeps_count:
  "case CheckDeployStatus_loop R B g loc cfg i s of (res, s') \<Rightarrow>
     gets s \<le> gets s'
     \<and> sleeps s' = sleeps s @
         replicate (length (filter
           (\<lambda>j. \<exists>r. g j loc cfg = Returned (Some r) \<and> isHttpCodeAccepted (status r))
           [gets s..<gets s'])) B"
proof (induction R B g loc cfg i s rule: CheckDeployStatus_loop.induct)
  case (1 R B g loc cfg i s)
  let ?L = "CheckDeployStatus_loop R B g loc cfg"
  let ?P = "\<lambda>j. \<exists>r. g j loc cfg = Returned (Some r) \<and> isHttpCodeAccepted (status r)"
  show ?case
  proof (cases "i < R")
    case False
    then show ?thesis by (simp add: loop_exhausted)
  next
    case lt: True
    show ?thesis
    proof (cases "g (gets s) loc cfg")
      case (Raised e)
      with lt show ?thesis by (simp add: loop_raised)
    next
      case (Returned res)
      show ?thesis
      proof (cases res)
        case None
        let ?s1 = "s\<lparr>gets := Suc (gets s)\<rparr>"
        from Returned None lt have eq: "?L i s = ?L (Suc i) ?s1"
          by (simp add: loop_nullish)
        obtain res' s' where rs: "?L (Suc i) ?s1 = (res', s')"
          by (cases "?L (Suc i) ?s1")
        from "1.IH"(1) [OF lt Returned None] rs
        have g: "Suc (gets s) \<le> gets s'"
          and sl: "sleeps s' = sleeps s @
            replicate (length (filter ?P [Suc (gets s)..<gets s'])) B"
          by auto
        have np: "\<not> ?P (gets s)" using Returned None by simp
        have "[gets s..<gets s'] = gets s # [Suc (gets s)..<gets s']"
          using g by (simp add: upt_conv_Cons)
        then have "filter ?P [gets s..<gets s'] = filter ?P [Suc (gets s)..<gets s']"
          using np by simp
        with g sl show ?thesis unfolding eq rs by simp
      next
        case (Some r)
        show ?thesis
        proof (cases "isHttpCodeAccepted (status r)")
          case True
          let ?s1 = "s\<lparr>gets := Suc (gets s), sleeps := sleeps s @ [B]\<rparr>"
          from Returned Some lt True have eq: "?L i s = ?L (Suc i) ?s1"
            by (simp add: loop_accepted)
          obtain res' s' where rs: "?L (Suc i) ?s1 = (res', s')"
            by (cases "?L (Suc i) ?s1")
          from "1.IH"(2) [OF lt Returned Some True] rs
          have g: "Suc (gets s) \<le> gets s'"
            and sl: "sleeps s' = (sleeps s @ [B]) @
              replicate (length (filter ?P [Suc (gets s)..<gets s'])) B"
            by auto
          have p: "?P (gets s)" using Returned Some True by simp
          have "[gets s..<gets s'] = gets s # [Suc (gets s)..<gets s']"
            using g by (simp add: upt_conv_Cons)
          then have "length (filter ?P [gets s..<gets s']) =
              Suc (length (filter ?P [Suc (gets s)..<gets s']))"
            using p by simp
          with g sl show ?thesis unfolding eq rs by simp
        next
          case na: False
          have np: "\<not> ?P (gets s)" using Returned Some na by simp
          show ?thesis
          proof (cases "isHttpCodeOkOrCreated (status r)")
            case True
            with na np Returned Some lt show ?thesis by (simp add: loop_ok [where r = r])
          next
            case False
            with na np Returned Some lt show ?thesis by (simp add: loop_other [where r = r])
          qed
        qed
      qed
    qed
  qed
qed

section \<open>Scenarios of the poller\<close>

text \<open>
  C5. With a retry ceiling of at least three, polls that answer 202, 202, 200 make the
  poller return normally; exactly two backoff sleeps were performed and exactly three
  GETs were issued, so nothing is polled after the 200 response.
\<close>

theorem poll_202_202_200:
  assumes "3 \<le> R"
    and "g 0 loc cfg = Returned (Some r0)" and "status r0 = 202"
    and "g 1 loc cfg = Returned (Some r1)" and "status r1 = 202"
    and "g 2 loc cfg = Returned (Some r2)" and "status r2 = 200"
  shows "CheckDeployStatus R B g loc cfg = (Inr (), \<lparr>gets = 3, sleeps = [B, B]\<rparr>)"
proof -
  let ?L = "CheckDeployStatus_loop R B g loc cfg"
  have "?L 0 \<lparr>gets = 0, sleeps = []\<rparr> = ?L 1 \<lparr>gets = 1, sleeps = [B]\<rparr>"
    using assms by (simp add: loop_accepted [where r = r0] status_facts)
  also have "\<dots> = ?L 2 \<lparr>gets = 2, sleeps = [B, B]\<rparr>"
    using assms by (simp add: loop_accepted [where r = r1] status_facts numeral_2_eq_2)
  also have "\<dots> = (Inr (), \<lparr>gets = 3, sleeps = [B, B]\<rparr>)"
    using assms by (simp add: loop_ok [where r = r2] status_facts numeral_3_eq_3 numeral_2_eq_2)
  finally show ?thesis by (simp add: CheckDeployStatus_def)
qed

theorem poll_202_202_200_witness:
  "CheckDeployStatus 5 10
     (\<lambda>n _ _. Returned (Some \<lparr>status = (if n = 2 then 200 else 202), headers_location = []\<rparr>)
        :: (string, AxiosResponse) awaited)
     ''https://site.scm/api/deployments/latest'' ()
   = (Inr (), \<lparr>gets = 3, sleeps = [10, 10]\<rparr>)"
  using poll_202_202_200 [where R = 5 and B = 10
      and g = "\<lambda>n _ _. Returned (Some \<lparr>status = (if n = 2 then 200 else 202), headers_location = []\<rparr>)"
      and loc = "''https://site.scm/api/deployments/latest''" and cfg = "()"
      and ?r0.0 = "\<lparr>status = 202, headers_location = []\<rparr>"
      and ?r1.0 = "\<lparr>status = 202, headers_location = []\<rparr>"
      and ?r2.0 = "\<lparr>status = 200, headers_location = []\<rparr>"]
  by simp

text \<open>
  C6. With a retry ceiling of exactly three, polls that answer 202, 202, 202 exhaust the
  loop: the poller raises \<open>DeployTimeoutError\<close> after three GETs and three backoff sleeps.
\<close>

theorem poll_202_202_202:
  assumes "g 0 loc cfg = Returned (Some r0)" and "status r0 = 202"
    and "g 1 loc cfg = Returned (Some r1)" and "status r1 = 202"
    and "g 2 loc cfg = Returned (Some r2)" and "status r2 = 202"
  shows "CheckDeployStatus 3 B g loc cfg =
           (Inl DeployTimeoutError, \<lparr>gets = 3, sleeps = [B, B, B]\<rparr>)"
proof -
  let ?L = "CheckDeployStatus_loop 3 B g loc cfg"
  have "?L 0 \<lparr>gets = 0, sleeps = []\<rparr> = ?L 1 \<lparr>gets = 1, sleeps = [B]\<rparr>"
    using assms by (simp add: loop_accepted [where r = r0] status_facts)
  also have "\<dots> = ?L 2 \<lparr>gets = 2, sleeps = [B, B]\<rparr>"
    using assms by (simp add: loop_accepted [where r = r1] status_facts numeral_2_eq_2)
  also have "\<dots> = ?L 3 \<lparr>gets = 3, sleeps = [B, B, B]\<rparr>"
    using assms
    by (simp add: loop_accepted [where r = r2] status_facts numeral_3_eq_3 numeral_2_eq_2)
  also have "\<dots> = (Inl DeployTimeoutError, \<lparr>gets = 3, sleeps = [B, B, B]\<rparr>)"
    by (simp add: loop_exhausted)
  finally show ?thesis by (simp add: CheckDeployStatus_def)
qed

theorem poll_202_202_202_witness:
  "CheckDeployStatus 3 10
     (\<lambda>_ _ _. Returned (Some \<lparr>status = 202, headers_location = []\<rparr>)
        :: (string, AxiosResponse) awaited)
     ''https://site.scm/api/deployments/latest'' ()
   = (Inl DeployTimeoutError, \<lparr>gets = 3, sleeps = [10, 10, 10]\<rparr>)"
  using poll_202_202_202 [where B = 10
      and g = "\<lambda>_ _ _. Returned (Some \<lparr>status = 202, headers_location = []\<rparr>)"
      and loc = "''https://site.scm/api/deployments/latest''" and cfg = "()"
      and ?r0.0 = "\<lparr>status = 202, headers_location = []\<rparr>"
      and ?r1.0 = "\<lparr>status = 202, headers_location = []\<rparr>"
      and ?r2.0 = "\<lparr>status = 202, headers_location = []\<rparr>"]
  by simp

lemma run_202_500:
  assumes "2 \<le> R"
    and "g 0 loc cfg = Returned (Some r0)" and "status r0 = 202"
    and "g 1 loc cfg = Returned (Some r1)" and "status r1 = 500"
  shows "CheckDeployStatus R B g loc cfg =
           (Inl (DeployStatusError None), \<lparr>gets = 2, sleeps = [B]\<rparr>)"
proof -
  let ?L = "CheckDeployStatus_loop R B g loc cfg"
  have "?L 0 \<lparr>gets = 0, sleeps = []\<rparr> = ?L 1 \<lparr>gets = 1, sleeps = [B]\<rparr>"
    using assms by (simp add: loop_accepted [where r = r0] status_facts)
  also have "\<dots> = (Inl (DeployStatusError None), \<lparr>gets = 2, sleeps = [B]\<rparr>)"
    using assms by (simp add: loop_other [where r = r1] status_facts numeral_2_eq_2)
  finally show ?thesis by (simp add: CheckDeployStatus_def)
qed

lemma run_bad_status:
  assumes "k < R"
    and "\<forall>j<k. g j loc cfg = Returned None \<or>
           (\<exists>r. g j loc cfg = Returned (Some r) \<and> isHttpCodeAccepted (status r))"
    and "g k loc cfg = Returned (Some r)"
    and "\<not> isHttpCodeAccepted (status r)" and "\<not> isHttpCodeOkOrCreated (status r)"
  shows "CheckDeployStatus R B g loc cfg =
           (Inl (DeployStatusError None),
            \<lparr>gets = Suc k,
             sleeps = replicate
               (length (filter (\<lambda>j. g j loc cfg \<noteq> Returned None) [0..<k])) B\<rparr>)"
proof -
  let ?s0 = "\<lparr>gets = 0, sleeps = []\<rparr>"
  let ?n = "length (filter (\<lambda>j. g j loc cfg \<noteq> Returned None) [0..<k])"
  have "CheckDeployStatus_loop R B g loc cfg 0 ?s0 =
      CheckDeployStatus_loop R B g loc cfg (0 + k)
        (?s0\<lparr>gets := gets ?s0 + k,
             sleeps := sleeps ?s0 @
               replicate (length (filter
                 (\<lambda>j. g (gets ?s0 + j) loc cfg \<noteq> Returned None) [0..<k])) B\<rparr>)"
    using assms(1,2) by (intro loop_continue_prefix) simp_all
  then have "CheckDeployStatus R B g loc cfg =
      CheckDeployStatus_loop R B g loc cfg k \<lparr>gets = k, sleeps = replicate ?n B\<rparr>"
    by (simp add: CheckDeployStatus_def)
  also have "\<dots> =
      (Inl (DeployStatusError None), \<lparr>gets = Suc k, sleeps = replicate ?n B\<rparr>)"
    using assms by (simp add: loop_other [where r = r])
  finally show ?thesis .
qed

text \<open>
  C7. With a retry ceiling of at least two, polls that answer 202, 500 make the poller
  raise \<open>DeployStatusError\<close> without a cause at the second attempt: one backoff sleep was
  performed and two GETs were issued, whatever remains of the retry budget. In general, a
  response whose status is neither accepted nor ok-or-created ends the loop at once with
  that error at any iteration within the budget, counting the GET and adding no sleep;
  a run whose first \<open>k\<close> polls kept the loop going and whose poll \<open>k\<close> has such a status
  ends after exactly \<open>k + 1\<close> GETs. In every run the sleeps are exactly one backoff for
  each accepted response among the GETs issued: no other outcome of a poll sleeps.
\<close>

theorem poll_bad_status_fails_fast:
  "(2 \<le> R \<and> g 0 loc cfg = Returned (Some r0) \<and> status r0 = 202
      \<and> g 1 loc cfg = Returned (Some r1) \<and> status r1 = 500 \<longrightarrow>
      CheckDeployStatus R B g loc cfg =
        (Inl (DeployStatusError None), \<lparr>gets = 2, sleeps = [B]\<rparr>))
   \<and> (i < R \<and> g (gets s) loc cfg = Returned (Some r)
        \<and> \<not> isHttpCodeAccepted (status r) \<and> \<not> isHttpCodeOkOrCreated (status r) \<longrightarrow>
      CheckDeployStatus_loop R B g loc cfg i s =
        (Inl (DeployStatusError None), s\<lparr>gets := Suc (gets s)\<rparr>))
   \<and> (k < R
        \<and> (\<forall>j<k. g j loc cfg = Returned None \<or>
              (\<exists>r. g j loc cfg = Returned (Some r) \<and> isHttpCodeAccepted (status r)))
        \<and> g k loc cfg = Returned (Some r)
        \<and> \<not> isHttpCodeAccepted (status r) \<and> \<not> isHttpCodeOkOrCreated (status r) \<longrightarrow>
      CheckDeployStatus R B g loc cfg =
        (Inl (DeployStatusError None),
         \<lparr>gets = Suc k,
          sleeps = replicate
            (length (filter (\<lambda>j. g j loc cfg \<noteq> Returned None) [0..<k])) B\<rparr>))
   \<and> (case CheckDeployStatus R B g loc cfg of (res, s') \<Rightarrow>
        sleeps s' =
          replicate (length (filter
            (\<lambda>j. \<exists>r. g j loc cfg = Returned (Some r) \<and> isHttpCodeAccepted (status r))
            [0..<gets s'])) B)"
proof (intro conjI impI)
  assume "2 \<le> R \<and> g 0 loc cfg = Returned (Some r0) \<and> status r0 = 202
      \<and> g 1 loc cfg = Returned (Some r1) \<and> status r1 = 500"
  then show "CheckDeployStatus R B g loc cfg =
      (Inl (DeployStatusError None), \<lparr>gets = 2, sleeps = [B]\<rparr>)"
    by (intro run_202_500 [where ?r0.0 = r0 and ?r1.0 = r1]) simp_all
next
  assume "i < R \<and> g (gets s) loc cfg = Returned (Some r)
        \<and> \<not> isHttpCodeAccepted (status r) \<and> \<not> isHttpCodeOkOrCreated (status r)"
  then show "CheckDeployStatus_loop R B g loc cfg i s =
      (Inl (DeployStatusError None), s\<lparr>gets := Suc (gets s)\<rparr>)"
    by (simp add: loop_other [where r = r])
next
  assume "k < R
        \<and> (\<forall>j<k. g j loc cfg = Returned None \<or>
              (\<exists>r. g j loc cfg = Returned (Some r) \<and> isHttpCodeAccepted (status r)))
        \<and> g k loc cfg = Returned (Some r)
        \<and> \<not> isHttpCodeAccepted (status r) \<and> \<not> isHttpCodeOkOrCreated (status r)"
  then show "CheckDeployStatus R B g loc cfg =
      (Inl (DeployStatusError None),
       \<lparr>gets = Suc k,
        sleeps = replicate
          (length (filter (\<lambda>j. g j loc cfg \<noteq> Returned None) [0..<k])) B\<rparr>)"
    by (intro run_bad_status [where r = r]) simp_all
next
  show "case CheckDeployStatus R B g loc cfg of (res, s') \<Rightarrow>
      sleeps s' =
        replicate (length (filter
          (\<lambda>j. \<exists>r. g j loc cfg = Returned (Some r) \<and> isHttpCodeAccepted (status r))
          [0..<gets s'])) B"
    using loop_sleeps_count [where R = R and B = B and g = g and loc = loc and cfg = cfg
        and i = 0 and s = "\<lparr>gets = 0, sleeps = []\<rparr>"]
    by (simp add: CheckDeployStatus_def split: prod.splits)
qed

theorem poll_bad_status_fails_fast_witness:
  "CheckDeployStatus 30 10
     (\<lambda>n _ _. Returned (Some \<lparr>status = (if n = 0 then 202 else 500), headers_location = []\<rparr>) :: (string, AxiosResponse) awaited)
     ''https://site.scm/api/deployments/latest'' ()
   = (Inl (DeployStatusError None), \<lparr>gets = 2, sleeps = [10]\<rparr>)
   \<and> CheckDeployStatus 30 10
     (\<lambda>n _ _. Returned (Some \<lparr>status = (if n = 0 then 202 else 404), headers_location = []\<rparr>) :: (string, AxiosResponse) awaited)
     ''https://site.scm/api/deployments/latest'' ()
   = (Inl (DeployStatusError None), \<lparr>gets = Suc (Suc 0), sleeps = [10]\<rparr>)
   \<and> CheckDeployStatus_loop 30 10
     (\<lambda>n _ _. Returned (Some \<lparr>status = (if n = 0 then 202 else 404), headers_location = []\<rparr>) :: (string, AxiosResponse) awaited)
     ''https://site.scm/api/deployments/latest'' () (Suc 0) \<lparr>gets = Suc 0, sleeps = [10]\<rparr>
   = (Inl (DeployStatusError None), \<lparr>gets = Suc (Suc 0), sleeps = [10]\<rparr>)"
  using poll_bad_status_fails_fast [where R = 30 and B = 10 and i = "Suc 0" and k = "Suc 0"
      and s = "\<lparr>gets = Suc 0, sleeps = [10]\<rparr>"
      and g = "\<lambda>n _ _. Returned (Some \<lparr>status = (if n = 0 then 202 else 500), headers_location = []\<rparr>)"
      and loc = "''https://site.scm/api/deployments/latest''" and cfg = "()"
      and ?r0.0 = "\<lparr>status = 202, headers_location = []\<rparr>"
      and ?r1.0 = "\<lparr>status = 500, headers_location = []\<rparr>"
      and r = "\<lparr>status = 500, headers_location = []\<rparr>"]
    poll_bad_status_fails_fast [where R = 30 and B = 10 and i = "Suc 0" and k = "Suc 0"
      and s = "\<lparr>gets = Suc 0, sleeps = [10]\<rparr>"
      and g = "\<lambda>n _ _. Returned (Some \<lparr>status = (if n = 0 then 202 else 404), headers_location = []\<rparr>)"
      and loc = "''https://site.scm/api/deployments/latest''" and cfg = "()"
      and ?r0.0 = "\<lparr>status = 202, headers_location = []\<rparr>"
      and ?r1.0 = "\<lparr>status = 404, headers_location = []\<rparr>"
      and r = "\<lparr>status = 404, headers_location = []\<rparr>"]
  by (auto simp: isHttpCodeAccepted_def isHttpCodeOkOrCreated_def)

section \<open>Transport errors, nullish responses and the retry budget\<close>

text \<open>
  C4. A GET that raises ends the poller at once with \<open>DeployStatusError\<close> carrying the
  raised value. At any iteration within the budget the loop returns that error with the
  state it had, plus the one GET just issued: no sleep is added and no later GET is made.
  For a whole run: if the first \<open>k\<close> polls (\<open>k\<close> below the ceiling) all kept the loop
  going and poll \<open>k\<close> raises, the run ends with that error after exactly \<open>k + 1\<close> GETs,
  having slept only for the responses received before it. In particular, a raise on the
  first poll gives the error after one GET and no sleep. The result is never
  \<open>DeployTimeoutError\<close>.
\<close>

theorem poll_raise_fails_fast:
  "(i < R \<and> g (gets s) loc cfg = Raised e \<longrightarrow>
      CheckDeployStatus_loop R B g loc cfg i s =
        (Inl (DeployStatusError (Some e)), s\<lparr>gets := Suc (gets s)\<rparr>))
   \<and> (k < R
        \<and> (\<forall>j<k. g j loc cfg = Returned None \<or>
              (\<exists>r. g j loc cfg = Returned (Some r) \<and> isHttpCodeAccepted (status r)))
        \<and> g k loc cfg = Raised e \<longrightarrow>
      CheckDeployStatus R B g loc cfg =
        (Inl (DeployStatusError (Some e)),
         \<lparr>gets = Suc k,
          sleeps = replicate (length (filter (\<lambda>j. g j loc cfg \<noteq> Returned None) [0..<k])) B\<rparr>))
   \<and> (0 < R \<and> g 0 loc cfg = Raised e \<longrightarrow>
      CheckDeployStatus R B g loc cfg =
        (Inl (DeployStatusError (Some e)), \<lparr>gets = Suc 0, sleeps = []\<rparr>))"
proof (intro conjI impI)
  assume "i < R \<and> g (gets s) loc cfg = Raised e"
  then show "CheckDeployStatus_loop R B g loc cfg i s =
      (Inl (DeployStatusError (Some e)), s\<lparr>gets := Suc (gets s)\<rparr>)"
    by (simp add: loop_raised)
next
  let ?s0 = "\<lparr>gets = 0, sleeps = []\<rparr>"
  let ?n = "length (filter (\<lambda>j. g j loc cfg \<noteq> Returned None) [0..<k])"
  assume a: "k < R
        \<and> (\<forall>j<k. g j loc cfg = Returned None \<or>
              (\<exists>r. g j loc cfg = Returned (Some r) \<and> isHttpCodeAccepted (status r)))
        \<and> g k loc cfg = Raised e"
  then have "CheckDeployStatus_loop R B g loc cfg 0 ?s0 =
      CheckDeployStatus_loop R B g loc cfg (0 + k)
        (?s0\<lparr>gets := gets ?s0 + k,
             sleeps := sleeps ?s0 @
               replicate (length (filter (\<lambda>j. g (gets ?s0 + j) loc cfg \<noteq> Returned None) [0..<k])) B\<rparr>)"
    by (intro loop_continue_prefix) simp_all
  then have "CheckDeployStatus R B g loc cfg =
      CheckDeployStatus_loop R B g loc cfg k \<lparr>gets = k, sleeps = replicate ?n B\<rparr>"
    by (simp add: CheckDeployStatus_def)
  also have "\<dots> = (Inl (DeployStatusError (Some e)), \<lparr>gets = Suc k, sleeps = replicate ?n B\<rparr>)"
    using a by (simp add: loop_raised)
  finally show "CheckDeployStatus R B g loc cfg =
      (Inl (DeployStatusError (Some e)), \<lparr>gets = Suc k, sleeps = replicate ?n B\<rparr>)" .
next
  assume "0 < R \<and> g 0 loc cfg = Raised e"
  then show "CheckDeployStatus R B g loc cfg =
      (Inl (DeployStatusError (Some e)), \<lparr>gets = Suc 0, sleeps = []\<rparr>)"
    by (simp add: CheckDeployStatus_def loop_raised)
qed

theorem poll_raise_fails_fast_witness:
  "CheckDeployStatus_loop 3 10
     (\<lambda>n _ _. if n = 0 then Returned (Some \<lparr>status = 202, headers_location = []\<rparr>)
               else Raised ''ECONNRESET'')
     ''https://site.scm/api/deployments/latest'' () (Suc 0) \<lparr>gets = Suc 0, sleeps = [10]\<rparr>
     = (Inl (DeployStatusError (Some ''ECONNRESET'')), \<lparr>gets = Suc (Suc 0), sleeps = [10]\<rparr>)
   \<and> CheckDeployStatus 3 10
     (\<lambda>n _ _. if n = 0 then Returned (Some \<lparr>status = 202, headers_location = []\<rparr>)
               else Raised ''ECONNRESET'')
     ''https://site.scm/api/deployments/latest'' ()
     = (Inl (DeployStatusError (Some ''ECONNRESET'')), \<lparr>gets = Suc (Suc 0), sleeps = [10]\<rparr>)
   \<and> CheckDeployStatus 3 10
     (\<lambda>_ _ _. Raised ''ECONNRESET'' :: (string, AxiosResponse) awaited)
     ''https://site.scm/api/deployments/latest'' ()
     = (Inl (DeployStatusError (Some ''ECONNRESET'')), \<lparr>gets = Suc 0, sleeps = []\<rparr>)"
  using poll_raise_fails_fast [where R = 3 and B = 10 and i = "Suc 0" and k = "Suc 0"
      and s = "\<lparr>gets = Suc 0, sleeps = [10]\<rparr>" and e = "''ECONNRESET''"
      and g = "\<lambda>n _ _. if n = 0 then Returned (Some \<lparr>status = 202, headers_location = []\<rparr>)
                        else Raised ''ECONNRESET''"
      and loc = "''https://site.scm/api/deployments/latest''" and cfg = "()"]
    poll_raise_fails_fast [where R = 3 and B = 10 and i = 0 and k = 0
      and s = "\<lparr>gets = 0, sleeps = []\<rparr>" and e = "''ECONNRESET''"
      and g = "\<lambda>_ _ _. Raised ''ECONNRESET''"
      and loc = "''https://site.scm/api/deployments/latest''" and cfg = "()"]
  by (simp add: status_facts)

text \<open>
  C10. A GET that returns a nullish value is skipped: at any iteration within the budget
  the loop goes on to the next iteration having counted the GET only, with no sleep and
  no error. When every one of the \<open>RETRY_TIMES\<close> polls returns a nullish value the
  poller raises \<open>DeployTimeoutError\<close> after \<open>RETRY_TIMES\<close> GETs and no sleep at all.
\<close>

theorem poll_nullish_degrades_to_timeout:
  "(i < R \<and> g (gets s) loc cfg = Returned None \<longrightarrow>
      CheckDeployStatus_loop R B g loc cfg i s =
        CheckDeployStatus_loop R B g loc cfg (Suc i) (s\<lparr>gets := Suc (gets s)\<rparr>))
   \<and> ((\<forall>j<R. g j loc cfg = Returned None) \<longrightarrow>
      CheckDeployStatus R B g loc cfg = (Inl DeployTimeoutError, \<lparr>gets = R, sleeps = []\<rparr>))"
proof (intro conjI impI)
  assume "i < R \<and> g (gets s) loc cfg = Returned None"
  then show "CheckDeployStatus_loop R B g loc cfg i s =
      CheckDeployStatus_loop R B g loc cfg (Suc i) (s\<lparr>gets := Suc (gets s)\<rparr>)"
    by (simp add: loop_nullish)
next
  let ?s0 = "\<lparr>gets = 0, sleeps = []\<rparr>"
  assume a: "\<forall>j<R. g j loc cfg = Returned None"
  then have "CheckDeployStatus_loop R B g loc cfg 0 ?s0 =
      CheckDeployStatus_loop R B g loc cfg (0 + R)
        (?s0\<lparr>gets := gets ?s0 + R,
             sleeps := sleeps ?s0 @
               replicate (length (filter (\<lambda>j. g (gets ?s0 + j) loc cfg \<noteq> Returned None) [0..<R])) B\<rparr>)"
    by (intro loop_continue_prefix) simp_all
  moreover have "filter (\<lambda>j. g j loc cfg \<noteq> Returned None) [0..<R] = []"
    using a by (simp add: filter_empty_conv)
  ultimately have "CheckDeployStatus R B g loc cfg =
      CheckDeployStatus_loop R B g loc cfg R \<lparr>gets = R, sleeps = []\<rparr>"
    by (simp add: CheckDeployStatus_def)
  then show "CheckDeployStatus R B g loc cfg = (Inl DeployTimeoutError, \<lparr>gets = R, sleeps = []\<rparr>)"
    by (simp add: loop_exhausted)
qed

theorem poll_nullish_degrades_to_timeout_witness:
  "CheckDeployStatus_loop 3 10
     (\<lambda>_ _ _. Returned None :: (string, AxiosResponse) awaited)
     ''https://site.scm/api/deployments/latest'' () (Suc 0) \<lparr>gets = Suc 0, sleeps = []\<rparr>
     = CheckDeployStatus_loop 3 10 (\<lambda>_ _ _. Returned None)
         ''https://site.scm/api/deployments/latest'' () (Suc (Suc 0))
         \<lparr>gets = Suc (Suc 0), sleeps = []\<rparr>
   \<and> CheckDeployStatus 3 10
     (\<lambda>_ _ _. Returned None :: (string, AxiosResponse) awaited)
     ''https://site.scm/api/deployments/latest'' ()
     = (Inl DeployTimeoutError, \<lparr>gets = 3, sleeps = []\<rparr>)"
  using poll_nullish_degrades_to_timeout [where R = 3 and B = 10 and i = "Suc 0"
      and s = "\<lparr>gets = Suc 0, sleeps = []\<rparr>"
      and g = "\<lambda>_ _ _. Returned None :: (string, AxiosResponse) awaited"
      and loc = "''https://site.scm/api/deployments/latest''" and cfg = "()"]
  by simp

text \<open>
  C8. The poller is a total function: for every transport, every retry ceiling and every
  backoff it returns a result. It issues at most \<open>RETRY_TIMES\<close> GETs and performs at most
  \<open>RETRY_TIMES\<close> sleeps, each of \<open>BACKOFF_TIME_S\<close> seconds, so the time slept is at most
  \<open>RETRY_TIMES * BACKOFF_TIME_S\<close>. The result is a normal return, a \<open>DeployStatusError\<close>,
  or a \<open>DeployTimeoutError\<close>; the last only after all \<open>RETRY_TIMES\<close> GETs were issued.
\<close>

theorem poll_terminates_within_budget:
  "case CheckDeployStatus R B g loc cfg of (res, s') \<Rightarrow>
     gets s' \<le> R
     \<and> length (sleeps s') \<le> R
     \<and> set (sleeps s') \<subseteq> {B}
     \<and> sum_list (sleeps s') \<le> R * B
     \<and> (res = Inr () \<or> (\<exists>c. res = Inl (DeployStatusError c))
          \<or> (res = Inl DeployTimeoutError \<and> gets s' = R))"
proof -
  obtain res s' where rs: "CheckDeployStatus R B g loc cfg = (res, s')"
    by (cases "CheckDeployStatus R B g loc cfg")
  from loop_bounds [where R = R and B = B and g = g and loc = loc and cfg = cfg
      and i = 0 and s = "\<lparr>gets = 0, sleeps = []\<rparr>"] rs
  obtain n where g: "gets s' \<le> R" and n: "n \<le> R" "sleeps s' = replicate n B"
    and k: "res = Inr () \<or> (\<exists>c. res = Inl (DeployStatusError c))
          \<or> (res = Inl DeployTimeoutError \<and> gets s' = R)"
    by (auto simp: CheckDeployStatus_def)
  have "sum_list (sleeps s') = n * B" using n(2) by (simp add: sum_list_replicate)
  also have "\<dots> \<le> R * B" using n(1) by (rule mult_le_mono1)
  finally have "sum_list (sleeps s') \<le> R * B" .
  moreover have "length (sleeps s') \<le> R" using n by simp
  moreover have "set (sleeps s') \<subseteq> {B}" using n(2) by auto
  ultimately show ?thesis using g k unfolding rs by simp
qed

section \<open>Failure and success of the six operations\<close>

text \<open>
  For each operation: the error raised when the awaited call throws, and the error
  raised when it yields a nullish value or a response whose status fails the test.
\<close>

lemma update_registration_raised:
  "bu rg name \<lparr>displayName = (case dn of None \<Rightarrow> name | Some d \<Rightarrow> d),
                     endpoint = ep, msaAppId = appId\<rparr> = Raised e \<Longrightarrow>
   UpdateBotChannelRegistration bu rg name appId ep dn = Inl (MessageEndpointUpdatingError ep (Some e))"
  by (simp add: UpdateBotChannelRegistration_def)

lemma update_registration_invalid:
  "bu rg name \<lparr>displayName = (case dn of None \<Rightarrow> name | Some d \<Rightarrow> d),
                     endpoint = ep, msaAppId = appId\<rparr> = Returned None \<or>
   (\<exists>r. bu rg name \<lparr>displayName = (case dn of None \<Rightarrow> name | Some d \<Rightarrow> d),
                     endpoint = ep, msaAppId = appId\<rparr> = Returned (Some r) \<and> \<not> isHttpCodeOkOrCreated (response_status r)) \<Longrightarrow>
   UpdateBotChannelRegistration bu rg name appId ep dn = Inl (MessageEndpointUpdatingError ep None)"
  by (auto simp: UpdateBotChannelRegistration_def)

lemma link_channel_raised:
  "cc rg name ''MsTeamsChannel''
          \<lparr>location = ''global'', kind = ''bot'', channelName = ''MsTeamsChannel'',
           isEnabled = True\<rparr> = Raised e \<Longrightarrow>
   LinkTeamsChannel cc rg name = Inl (ProvisionError MS_TEAMS_CHANNEL (Some e))"
  by (simp add: LinkTeamsChannel_def)

lemma link_channel_invalid:
  "cc rg name ''MsTeamsChannel''
          \<lparr>location = ''global'', kind = ''bot'', channelName = ''MsTeamsChannel'',
           isEnabled = True\<rparr> = Returned None \<or>
   (\<exists>r. cc rg name ''MsTeamsChannel''
          \<lparr>location = ''global'', kind = ''bot'', channelName = ''MsTeamsChannel'',
           isEnabled = True\<rparr> = Returned (Some r) \<and> \<not> isHttpCodeOkOrCreated (response_status r)) \<Longrightarrow>
   LinkTeamsChannel cc rg name = Inl (ProvisionError MS_TEAMS_CHANNEL None)"
  by (auto simp: LinkTeamsChannel_def)

lemma list_credentials_raised:
  "lp rg site = Raised e \<Longrightarrow>
   ListPublishingCredentials lp rg site = Inl (ListPublishingCredentialsError (Some e))"
  by (simp add: ListPublishingCredentials_def)

lemma list_credentials_invalid:
  "lp rg site = Returned None \<or>
   (\<exists>r. lp rg site = Returned (Some r) \<and> \<not> isHttpCodeOkOrCreated (response_status r)) \<Longrightarrow>
   ListPublishingCredentials lp rg site = Inl (ListPublishingCredentialsError None)"
  by (auto simp: ListPublishingCredentials_def)

lemma zip_deploy_raised:
  "post zep buf cfg = Raised e \<Longrightarrow>
   ZipDeployPackage post zep buf cfg = Inl (ZipDeployError (Some e))"
  by (simp add: ZipDeployPackage_def)

lemma zip_deploy_invalid:
  "post zep buf cfg = Returned None \<or>
   (\<exists>r. post zep buf cfg = Returned (Some r) \<and> \<not> isHttpCodeAccepted (status r)) \<Longrightarrow>
   ZipDeployPackage post zep buf cfg = Inl (ZipDeployError None)"
  by (auto simp: ZipDeployPackage_def)

lemma restart_raised:
  "rs rg site = Raised e \<Longrightarrow>
   RestartWebApp rs rg site = Inl (RestartWebAppError (Some e))"
  by (simp add: RestartWebApp_def)

lemma restart_invalid:
  "rs rg site = Returned None \<or>
   (\<exists>r. rs rg site = Returned (Some r) \<and> \<not> isHttpCodeOkOrCreated (response_status r)) \<Longrightarrow>
   RestartWebApp rs rg site = Inl (RestartWebAppError None)"
  by (auto simp: RestartWebApp_def)

lemma create_or_update_raised:
  "cu rg site env = Raised e \<Longrightarrow>
   CreateOrUpdateAzureWebApp cu rg site env update =
     Inl (if update = Some True
          then ConfigUpdatingError AZURE_WEB_APP_AUTH_CONFIGS (Some e)
          else ProvisionError AZURE_WEB_APP (Some e))"
  by (simp add: CreateOrUpdateAzureWebApp_def not_update_def split: option.splits)

lemma create_or_update_invalid:
  "cu rg site env = Returned None \<or>
   (\<exists>r. cu rg site env = Returned (Some r) \<and> \<not> isHttpCodeOkOrCreated (response_status r)) \<Longrightarrow>
   CreateOrUpdateAzureWebApp cu rg site env update =
     Inl (if update = Some True
          then ConfigUpdatingError AZURE_WEB_APP_AUTH_CONFIGS None
          else ProvisionError AZURE_WEB_APP None)"
  by (auto simp: CreateOrUpdateAzureWebApp_def not_update_def split: option.splits)

text \<open>
  C1. Each of the six operations turns a throwing collaborator call into its own error
  with the thrown value attached, and turns a nullish value or a response whose status
  fails the operation's test (ok-or-created; for the push, accepted) into the same error
  with nothing attached. The errors are, in order: \<open>MessageEndpointUpdatingError\<close> for
  the endpoint, \<open>ProvisionError\<close> for the Teams channel, \<open>ProvisionError\<close> for the web app
  or \<open>ConfigUpdatingError\<close> for its auth configs (by the update flag),
  \<open>ListPublishingCredentialsError\<close>, \<open>ZipDeployError\<close> and \<open>RestartWebAppError\<close>.
\<close>

theorem operations_failure_kinds:
  "((bu rg name \<lparr>displayName = (case dn of None \<Rightarrow> name | Some d \<Rightarrow> d),
                  endpoint = ep, msaAppId = appId\<rparr> = Raised e \<longrightarrow>
      UpdateBotChannelRegistration bu rg name appId ep dn = Inl (MessageEndpointUpdatingError ep (Some e)))
    \<and> (bu rg name \<lparr>displayName = (case dn of None \<Rightarrow> name | Some d \<Rightarrow> d),
                  endpoint = ep, msaAppId = appId\<rparr> = Returned None \<or>
        (\<exists>r. bu rg name \<lparr>displayName = (case dn of None \<Rightarrow> name | Some d \<Rightarrow> d),
                  endpoint = ep, msaAppId = appId\<rparr> = Returned (Some r) \<and> \<not> isHttpCodeOkOrCreated (response_status r)) \<longrightarrow>
      UpdateBotChannelRegistration bu rg name appId ep dn = Inl (MessageEndpointUpdatingError ep None)))
   \<and> ((cc rg name ''MsTeamsChannel''
        \<lparr>location = ''global'', kind = ''bot'', channelName = ''MsTeamsChannel'',
         isEnabled = True\<rparr> = Raised e \<longrightarrow>
      LinkTeamsChannel cc rg name = Inl (ProvisionError MS_TEAMS_CHANNEL (Some e)))
    \<and> (cc rg name ''MsTeamsChannel''
        \<lparr>location = ''global'', kind = ''bot'', channelName = ''MsTeamsChannel'',
         isEnabled = True\<rparr> = Returned None \<or>
        (\<exists>r. cc rg name ''MsTeamsChannel''
        \<lparr>location = ''global'', kind = ''bot'', channelName = ''MsTeamsChannel'',
         isEnabled = True\<rparr> = Returned (Some r) \<and> \<not> isHttpCodeOkOrCreated (response_status r)) \<longrightarrow>
      LinkTeamsChannel cc rg name = Inl (ProvisionError MS_TEAMS_CHANNEL None)))
   \<and> ((cu rg site env = Raised e \<longrightarrow>
      CreateOrUpdateAzureWebApp cu rg site env update =
        Inl (if update = Some True
             then ConfigUpdatingError AZURE_WEB_APP_AUTH_CONFIGS (Some e)
             else ProvisionError AZURE_WEB_APP (Some e)))
    \<and> (cu rg site env = Returned None \<or>
        (\<exists>r. cu rg site env = Returned (Some r) \<and> \<not> isHttpCodeOkOrCreated (response_status r)) \<longrightarrow>
      CreateOrUpdateAzureWebApp cu rg site env update =
        Inl (if update = Some True
             then ConfigUpdatingError AZURE_WEB_APP_AUTH_CONFIGS None
             else ProvisionError AZURE_WEB_APP None)))
   \<and> ((lp rg site = Raised e \<longrightarrow>
      ListPublishingCredentials lp rg site = Inl (ListPublishingCredentialsError (Some e)))
    \<and> (lp rg site = Returned None \<or>
        (\<exists>r. lp rg site = Returned (Some r) \<and> \<not> isHttpCodeOkOrCreated (response_status r)) \<longrightarrow>
      ListPublishingCredentials lp rg site = Inl (ListPublishingCredentialsError None)))
   \<and> ((post zep buf cfg = Raised e \<longrightarrow>
      ZipDeployPackage post zep buf cfg = Inl (ZipDeployError (Some e)))
    \<and> (post zep buf cfg = Returned None \<or>
        (\<exists>r. post zep buf cfg = Returned (Some r) \<and> \<not> isHttpCodeAccepted (status r)) \<longrightarrow>
      ZipDeployPackage post zep buf cfg = Inl (ZipDeployError None)))
   \<and> ((rs rg site = Raised e \<longrightarrow>
      RestartWebApp rs rg site = Inl (RestartWebAppError (Some e)))
    \<and> (rs rg site = Returned None \<or>
        (\<exists>r. rs rg site = Returned (Some r) \<and> \<not> isHttpCodeOkOrCreated (response_status r)) \<longrightarrow>
      RestartWebApp rs rg site = Inl (RestartWebAppError None)))"
  by (intro conjI impI)
     (erule update_registration_raised update_registration_invalid
            link_channel_raised link_channel_invalid
            create_or_update_raised create_or_update_invalid
            list_credentials_raised list_credentials_invalid
            zip_deploy_raised zip_deploy_invalid
            restart_raised restart_invalid)+

theorem operations_failure_kinds_witness:
  "UpdateBotChannelRegistration (\<lambda>_ _ _. Raised ''boom'' :: (string, unit RestResponse) awaited) ''rg'' ''bot'' ''app'' ''https://bot.example/api/messages'' None = Inl (MessageEndpointUpdatingError ''https://bot.example/api/messages'' (Some ''boom''))
   \<and> LinkTeamsChannel (\<lambda>_ _ _ _. Raised ''boom'' :: (string, unit RestResponse) awaited) ''rg'' ''bot'' = Inl (ProvisionError MS_TEAMS_CHANNEL (Some ''boom''))
   \<and> CreateOrUpdateAzureWebApp (\<lambda>_ _ (_::unit). Raised ''boom'' :: (string, unit RestResponse) awaited) ''rg'' ''site'' () (Some False) = Inl (ProvisionError AZURE_WEB_APP (Some ''boom''))
   \<and> ListPublishingCredentials (\<lambda>_ _. Raised ''boom'' :: (string, unit RestResponse) awaited) ''rg'' ''site'' = Inl (ListPublishingCredentialsError (Some ''boom''))
   \<and> ZipDeployPackage (\<lambda>_ (_::nat list) (_::unit). Raised ''boom'' :: (string, AxiosResponse) awaited) ''https://site.scm/api/zipdeploy'' [80, 75] () = Inl (ZipDeployError (Some ''boom''))
   \<and> RestartWebApp (\<lambda>_ _. Raised ''boom'' :: (string, unit RestResponse) awaited) ''rg'' ''site'' = Inl (RestartWebAppError (Some ''boom''))
   \<and> UpdateBotChannelRegistration (\<lambda>_ _ _. Returned None :: (string, unit RestResponse) awaited) ''rg'' ''bot'' ''app'' ''https://bot.example/api/messages'' None = Inl (MessageEndpointUpdatingError ''https://bot.example/api/messages'' None)
   \<and> LinkTeamsChannel (\<lambda>_ _ _ _. Returned None :: (string, unit RestResponse) awaited) ''rg'' ''bot'' = Inl (ProvisionError MS_TEAMS_CHANNEL None)
   \<and> CreateOrUpdateAzureWebApp (\<lambda>_ _ (_::unit). Returned None :: (string, unit RestResponse) awaited) ''rg'' ''site'' () (Some True) = Inl (ConfigUpdatingError AZURE_WEB_APP_AUTH_CONFIGS None)
   \<and> ListPublishingCredentials (\<lambda>_ _. Returned None :: (string, unit RestResponse) awaited) ''rg'' ''site'' = Inl (ListPublishingCredentialsError None)
   \<and> ZipDeployPackage (\<lambda>_ (_::nat list) (_::unit). Returned None :: (string, AxiosResponse) awaited) ''https://site.scm/api/zipdeploy'' [80, 75] () = Inl (ZipDeployError None)
   \<and> RestartWebApp (\<lambda>_ _. Returned None :: (string, unit RestResponse) awaited) ''rg'' ''site'' = Inl (RestartWebAppError None)
   \<and> UpdateBotChannelRegistration (\<lambda>_ _ _. Returned (Some \<lparr>response_status = 500, body = ()\<rparr>) :: (string, unit RestResponse) awaited) ''rg'' ''bot'' ''app'' ''https://bot.example/api/messages'' None = Inl (MessageEndpointUpdatingError ''https://bot.example/api/messages'' None)
   \<and> LinkTeamsChannel (\<lambda>_ _ _ _. Returned (Some \<lparr>response_status = 500, body = ()\<rparr>) :: (string, unit RestResponse) awaited) ''rg'' ''bot'' = Inl (ProvisionError MS_TEAMS_CHANNEL None)
   \<and> CreateOrUpdateAzureWebApp (\<lambda>_ _ (_::unit). Returned (Some \<lparr>response_status = 500, body = ()\<rparr>) :: (string, unit RestResponse) awaited) ''rg'' ''site'' () (None) = Inl (ProvisionError AZURE_WEB_APP None)
   \<and> ListPublishingCredentials (\<lambda>_ _. Returned (Some \<lparr>response_status = 500, body = ()\<rparr>) :: (string, unit RestResponse) awaited) ''rg'' ''site'' = Inl (ListPublishingCredentialsError None)
   \<and> ZipDeployPackage (\<lambda>_ (_::nat list) (_::unit). Returned (Some \<lparr>status = 500, headers_location = []\<rparr>) :: (string, AxiosResponse) awaited) ''https://site.scm/api/zipdeploy'' [80, 75] () = Inl (ZipDeployError None)
   \<and> RestartWebApp (\<lambda>_ _. Returned (Some \<lparr>response_status = 500, body = ()\<rparr>) :: (string, unit RestResponse) awaited) ''rg'' ''site'' = Inl (RestartWebAppError None)"
  using operations_failure_kinds [where rg = "''rg''" and name = "''bot''" and appId = "''app''"
      and ep = "''https://bot.example/api/messages''" and dn = None and site = "''site''" and env = "()"
      and update = "Some False" and zep = "''https://site.scm/api/zipdeploy''" and buf = "[80, 75]" and cfg = "()"
      and e = "''boom''"
      and bu = "\<lambda>_ _ _. Raised ''boom'' :: (string, unit RestResponse) awaited"
      and cc = "\<lambda>_ _ _ _. Raised ''boom'' :: (string, unit RestResponse) awaited"
      and cu = "\<lambda>_ _ (_::unit). Raised ''boom'' :: (string, unit RestResponse) awaited"
      and lp = "\<lambda>_ _. Raised ''boom'' :: (string, unit RestResponse) awaited"
      and post = "\<lambda>_ (_::nat list) (_::unit). Raised ''boom'' :: (string, AxiosResponse) awaited"
      and rs = "\<lambda>_ _. Raised ''boom'' :: (string, unit RestResponse) awaited"]
    operations_failure_kinds [where rg = "''rg''" and name = "''bot''" and appId = "''app''"
      and ep = "''https://bot.example/api/messages''" and dn = None and site = "''site''" and env = "()"
      and update = "Some True" and zep = "''https://site.scm/api/zipdeploy''" and buf = "[80, 75]" and cfg = "()"
      and e = "''boom''"
      and bu = "\<lambda>_ _ _. Returned None :: (string, unit RestResponse) awaited"
      and cc = "\<lambda>_ _ _ _. Returned None :: (string, unit RestResponse) awaited"
      and cu = "\<lambda>_ _ (_::unit). Returned None :: (string, unit RestResponse) awaited"
      and lp = "\<lambda>_ _. Returned None :: (string, unit RestResponse) awaited"
      and post = "\<lambda>_ (_::nat list) (_::unit). Returned None :: (string, AxiosResponse) awaited"
      and rs = "\<lambda>_ _. Returned None :: (string, unit RestResponse) awaited"]
    operations_failure_kinds [where rg = "''rg''" and name = "''bot''" and appId = "''app''"
      and ep = "''https://bot.example/api/messages''" and dn = None and site = "''site''" and env = "()"
      and update = "None" and zep = "''https://site.scm/api/zipdeploy''" and buf = "[80, 75]" and cfg = "()"
      and e = "''boom''"
      and bu = "\<lambda>_ _ _. Returned (Some \<lparr>response_status = 500, body = ()\<rparr>) :: (string, unit RestResponse) awaited"
      and cc = "\<lambda>_ _ _ _. Returned (Some \<lparr>response_status = 500, body = ()\<rparr>) :: (string, unit RestResponse) awaited"
      and cu = "\<lambda>_ _ (_::unit). Returned (Some \<lparr>response_status = 500, body = ()\<rparr>) :: (string, unit RestResponse) awaited"
      and lp = "\<lambda>_ _. Returned (Some \<lparr>response_status = 500, body = ()\<rparr>) :: (string, unit RestResponse) awaited"
      and post = "\<lambda>_ (_::nat list) (_::unit). Returned (Some \<lparr>status = 500, headers_location = []\<rparr>) :: (string, AxiosResponse) awaited"
      and rs = "\<lambda>_ _. Returned (Some \<lparr>response_status = 500, body = ()\<rparr>) :: (string, unit RestResponse) awaited"]
  by (simp add: status_facts)

text \<open>
  C3. When create-or-update fails, the error depends on the update flag only: with the
  flag \<open>true\<close> it is \<open>ConfigUpdatingError\<close> for the web app auth configs, otherwise (flag
  \<open>false\<close> or omitted) it is \<open>ProvisionError\<close> for the web app. This holds for a throwing
  call, where the thrown value is attached, and for a nullish value or a response whose
  status is not ok-or-created, where nothing is attached; the response itself does not
  occur in the error.
\<close>

theorem create_or_update_error_by_flag:
  "(cu rg site env = Raised e \<longrightarrow>
      CreateOrUpdateAzureWebApp cu rg site env (Some False) =
        Inl (ProvisionError AZURE_WEB_APP (Some e))
      \<and> CreateOrUpdateAzureWebApp cu rg site env None =
        Inl (ProvisionError AZURE_WEB_APP (Some e))
      \<and> CreateOrUpdateAzureWebApp cu rg site env (Some True) =
        Inl (ConfigUpdatingError AZURE_WEB_APP_AUTH_CONFIGS (Some e)))
   \<and> (cu rg site env = Returned None \<or>
       (\<exists>r. cu rg site env = Returned (Some r)
            \<and> \<not> isHttpCodeOkOrCreated (response_status r)) \<longrightarrow>
      CreateOrUpdateAzureWebApp cu rg site env (Some False) =
        Inl (ProvisionError AZURE_WEB_APP None)
      \<and> CreateOrUpdateAzureWebApp cu rg site env None =
        Inl (ProvisionError AZURE_WEB_APP None)
      \<and> CreateOrUpdateAzureWebApp cu rg site env (Some True) =
        Inl (ConfigUpdatingError AZURE_WEB_APP_AUTH_CONFIGS None))"
proof (intro conjI impI)
  assume a: "cu rg site env = Raised e"
  show "CreateOrUpdateAzureWebApp cu rg site env (Some False) =
      Inl (ProvisionError AZURE_WEB_APP (Some e))"
    using a create_or_update_raised [where cu = cu and rg = rg and site = site and env = env
        and update = "Some False"] by simp
  show "CreateOrUpdateAzureWebApp cu rg site env None =
      Inl (ProvisionError AZURE_WEB_APP (Some e))"
    using a create_or_update_raised [where cu = cu and rg = rg and site = site and env = env
        and update = "None"] by simp
  show "CreateOrUpdateAzureWebApp cu rg site env (Some True) =
      Inl (ConfigUpdatingError AZURE_WEB_APP_AUTH_CONFIGS (Some e))"
    using a create_or_update_raised [where cu = cu and rg = rg and site = site and env = env
        and update = "Some True"] by simp
next
  assume a: "cu rg site env = Returned None \<or>
       (\<exists>r. cu rg site env = Returned (Some r)
            \<and> \<not> isHttpCodeOkOrCreated (response_status r))"
  show "CreateOrUpdateAzureWebApp cu rg site env (Some False) =
      Inl (ProvisionError AZURE_WEB_APP None)"
    using a create_or_update_invalid [where cu = cu and rg = rg and site = site and env = env
        and update = "Some False"] by simp
  show "CreateOrUpdateAzureWebApp cu rg site env None =
      Inl (ProvisionError AZURE_WEB_APP None)"
    using a create_or_update_invalid [where cu = cu and rg = rg and site = site and env = env
        and update = "None"] by simp
  show "CreateOrUpdateAzureWebApp cu rg site env (Some True) =
      Inl (ConfigUpdatingError AZURE_WEB_APP_AUTH_CONFIGS None)"
    using a create_or_update_invalid [where cu = cu and rg = rg and site = site and env = env
        and update = "Some True"] by simp
qed

theorem create_or_update_error_by_flag_witness:
  "CreateOrUpdateAzureWebApp (\<lambda>_ _ (_::unit). Raised ''boom'' :: (string, unit RestResponse) awaited)
       ''rg'' ''site'' () (Some False) = Inl (ProvisionError AZURE_WEB_APP (Some ''boom''))
   \<and> CreateOrUpdateAzureWebApp (\<lambda>_ _ (_::unit). Raised ''boom'' :: (string, unit RestResponse) awaited)
       ''rg'' ''site'' () (Some True) =
         Inl (ConfigUpdatingError AZURE_WEB_APP_AUTH_CONFIGS (Some ''boom''))
   \<and> CreateOrUpdateAzureWebApp
       (\<lambda>_ _ (_::unit). Returned (Some \<lparr>response_status = 409, body = ()\<rparr>) :: (string, unit RestResponse) awaited)
       ''rg'' ''site'' () (Some False) = Inl (ProvisionError AZURE_WEB_APP None)
   \<and> CreateOrUpdateAzureWebApp
       (\<lambda>_ _ (_::unit). Returned (Some \<lparr>response_status = 409, body = ()\<rparr>) :: (string, unit RestResponse) awaited)
       ''rg'' ''site'' () (Some True) = Inl (ConfigUpdatingError AZURE_WEB_APP_AUTH_CONFIGS None)
   \<and> CreateOrUpdateAzureWebApp (\<lambda>_ _ (_::unit). Returned None :: (string, unit RestResponse) awaited)
       ''rg'' ''site'' () (Some True) = Inl (ConfigUpdatingError AZURE_WEB_APP_AUTH_CONFIGS None)"
  using
    create_or_update_error_by_flag [where rg = "''rg''" and site = "''site''" and env = "()"
      and e = "''boom''" and cu = "\<lambda>_ _ (_::unit). Raised ''boom'' :: (string, unit RestResponse) awaited"]
    create_or_update_error_by_flag [where rg = "''rg''" and site = "''site''" and env = "()"
      and e = "''boom''"
      and cu = "\<lambda>_ _ (_::unit). Returned (Some \<lparr>response_status = 409, body = ()\<rparr>) :: (string, unit RestResponse) awaited"]
    create_or_update_error_by_flag [where rg = "''rg''" and site = "''site''" and env = "()"
      and e = "''boom''" and cu = "\<lambda>_ _ (_::unit). Returned None :: (string, unit RestResponse) awaited"]
  by (simp add: isHttpCodeOkOrCreated_def)

text \<open>The result of each operation on a response that passes its status test.\<close>

lemma update_registration_valid:
  "bu rg name \<lparr>displayName = (case dn of None \<Rightarrow> name | Some d \<Rightarrow> d),
                  endpoint = ep, msaAppId = appId\<rparr> = Returned (Some r1)
   \<and> isHttpCodeOkOrCreated (response_status r1) \<Longrightarrow>
   UpdateBotChannelRegistration bu rg name appId ep dn = Inr ()"
  by (simp add: UpdateBotChannelRegistration_def)

lemma link_channel_valid:
  "cc rg name ''MsTeamsChannel''
        \<lparr>location = ''global'', kind = ''bot'', channelName = ''MsTeamsChannel'',
         isEnabled = True\<rparr> = Returned (Some r2)
   \<and> isHttpCodeOkOrCreated (response_status r2) \<Longrightarrow>
   LinkTeamsChannel cc rg name = Inr ()"
  by (simp add: LinkTeamsChannel_def)

lemma create_or_update_valid:
  "cu rg site env = Returned (Some r3)
   \<and> isHttpCodeOkOrCreated (response_status r3) \<Longrightarrow>
   CreateOrUpdateAzureWebApp cu rg site env update = Inr r3"
  by (simp add: CreateOrUpdateAzureWebApp_def)

lemma list_credentials_valid:
  "lp rg site = Returned (Some r4)
   \<and> isHttpCodeOkOrCreated (response_status r4) \<Longrightarrow>
   ListPublishingCredentials lp rg site = Inr r4"
  by (simp add: ListPublishingCredentials_def)

lemma restart_valid:
  "rs rg site = Returned (Some r6)
   \<and> isHttpCodeOkOrCreated (response_status r6) \<Longrightarrow>
   RestartWebApp rs rg site = Inr ()"
  by (simp add: RestartWebApp_def)

lemma zip_deploy_returned:
  "post zep buf cfg = Returned (Some r5) \<Longrightarrow>
   ZipDeployPackage post zep buf cfg =
     (if isHttpCodeAccepted (status r5) then Inr (headers_location r5)
      else Inl (ZipDeployError None))"
  by (simp add: ZipDeployPackage_def)

text \<open>
  C2, as the code has it. The five operations on the resource-management client succeed
  when the call returns a response whose status is ok-or-created: the two that have a
  payload return the response, the others return nothing. The push succeeds, returning
  the \<open>location\<close> header of the response, exactly when the status of the response is
  accepted; on any other status, ok-or-created included, it raises \<open>ZipDeployError\<close>
  with nothing attached.
\<close>

theorem operations_success_payloads:
  "(bu rg name \<lparr>displayName = (case dn of None \<Rightarrow> name | Some d \<Rightarrow> d),
                  endpoint = ep, msaAppId = appId\<rparr> = Returned (Some r1)
      \<and> isHttpCodeOkOrCreated (response_status r1) \<longrightarrow>
      UpdateBotChannelRegistration bu rg name appId ep dn = Inr ())
   \<and> (cc rg name ''MsTeamsChannel''
        \<lparr>location = ''global'', kind = ''bot'', channelName = ''MsTeamsChannel'',
         isEnabled = True\<rparr> = Returned (Some r2)
      \<and> isHttpCodeOkOrCreated (response_status r2) \<longrightarrow>
      LinkTeamsChannel cc rg name = Inr ())
   \<and> (cu rg site env = Returned (Some r3)
      \<and> isHttpCodeOkOrCreated (response_status r3) \<longrightarrow>
      CreateOrUpdateAzureWebApp cu rg site env update = Inr r3)
   \<and> (lp rg site = Returned (Some r4)
      \<and> isHttpCodeOkOrCreated (response_status r4) \<longrightarrow>
      ListPublishingCredentials lp rg site = Inr r4)
   \<and> (post zep buf cfg = Returned (Some r5) \<longrightarrow>
      ZipDeployPackage post zep buf cfg =
        (if isHttpCodeAccepted (status r5) then Inr (headers_location r5)
         else Inl (ZipDeployError None)))
   \<and> (rs rg site = Returned (Some r6)
      \<and> isHttpCodeOkOrCreated (response_status r6) \<longrightarrow>
      RestartWebApp rs rg site = Inr ())"
  by (intro conjI impI)
     (erule update_registration_valid link_channel_valid create_or_update_valid
            list_credentials_valid zip_deploy_returned restart_valid)+

theorem operations_success_payloads_witness:
  "UpdateBotChannelRegistration (\<lambda>_ _ _. Returned (Some \<lparr>response_status = 200, body = ()\<rparr>) :: (string, unit RestResponse) awaited) ''rg'' ''bot'' ''app'' ''https://bot.example/api/messages'' (Some ''My bot'') = Inr ()
   \<and> LinkTeamsChannel (\<lambda>_ _ _ _. Returned (Some \<lparr>response_status = 201, body = ()\<rparr>) :: (string, unit RestResponse) awaited) ''rg'' ''bot'' = Inr ()
   \<and> CreateOrUpdateAzureWebApp (\<lambda>_ _ (_::unit). Returned (Some \<lparr>response_status = 200, body = ()\<rparr>) :: (string, unit RestResponse) awaited) ''rg'' ''site'' () (Some False) = Inr \<lparr>response_status = 200, body = ()\<rparr>
   \<and> ListPublishingCredentials (\<lambda>_ _. Returned (Some \<lparr>response_status = 200, body = ()\<rparr>) :: (string, unit RestResponse) awaited) ''rg'' ''site'' = Inr \<lparr>response_status = 200, body = ()\<rparr>
   \<and> ZipDeployPackage (\<lambda>_ (_::nat list) (_::unit). Returned (Some \<lparr>status = 202, headers_location = ''https://site.scm/api/deployments/latest''\<rparr>) :: (string, AxiosResponse) awaited) ''https://site.scm/api/zipdeploy'' [80, 75] () = Inr ''https://site.scm/api/deployments/latest''
   \<and> ZipDeployPackage (\<lambda>_ (_::nat list) (_::unit). Returned (Some \<lparr>status = 201, headers_location = ''https://site.scm/api/deployments/latest''\<rparr>) :: (string, AxiosResponse) awaited) ''https://site.scm/api/zipdeploy'' [80, 75] () = Inl (ZipDeployError None)
   \<and> RestartWebApp (\<lambda>_ _. Returned (Some \<lparr>response_status = 200, body = ()\<rparr>) :: (string, unit RestResponse) awaited) ''rg'' ''site'' = Inr ()"
  using operations_success_payloads [where rg = "''rg''" and name = "''bot''" and appId = "''app''"
      and ep = "''https://bot.example/api/messages''" and dn = "Some ''My bot''" and site = "''site''" and env = "()"
      and update = "Some False" and zep = "''https://site.scm/api/zipdeploy''" and buf = "[80, 75]" and cfg = "()"
      and bu = "\<lambda>_ _ _. Returned (Some \<lparr>response_status = 200, body = ()\<rparr>) :: (string, unit RestResponse) awaited"
      and cc = "\<lambda>_ _ _ _. Returned (Some \<lparr>response_status = 201, body = ()\<rparr>) :: (string, unit RestResponse) awaited"
      and cu = "\<lambda>_ _ (_::unit). Returned (Some \<lparr>response_status = 200, body = ()\<rparr>) :: (string, unit RestResponse) awaited"
      and lp = "\<lambda>_ _. Returned (Some \<lparr>response_status = 200, body = ()\<rparr>) :: (string, unit RestResponse) awaited"
      and post = "\<lambda>_ (_::nat list) (_::unit). Returned (Some \<lparr>status = 202, headers_location = ''https://site.scm/api/deployments/latest''\<rparr>) :: (string, AxiosResponse) awaited"
      and rs = "\<lambda>_ _. Returned (Some \<lparr>response_status = 200, body = ()\<rparr>) :: (string, unit RestResponse) awaited"
      and ?r1.0 = "\<lparr>response_status = 200, body = ()\<rparr>"
      and ?r2.0 = "\<lparr>response_status = 201, body = ()\<rparr>"
      and ?r3.0 = "\<lparr>response_status = 200, body = ()\<rparr>"
      and ?r4.0 = "\<lparr>response_status = 200, body = ()\<rparr>"
      and ?r5.0 = "\<lparr>status = 202, headers_location = ''https://site.scm/api/deployments/latest''\<rparr>"
      and ?r6.0 = "\<lparr>response_status = 200, body = ()\<rparr>"]
    operations_success_payloads [where rg = "''rg''" and name = "''bot''" and appId = "''app''"
      and ep = "''https://bot.example/api/messages''" and dn = "Some ''My bot''" and site = "''site''" and env = "()"
      and update = "Some False" and zep = "''https://site.scm/api/zipdeploy''" and buf = "[80, 75]" and cfg = "()"
      and bu = "\<lambda>_ _ _. Returned (Some \<lparr>response_status = 200, body = ()\<rparr>) :: (string, unit RestResponse) awaited"
      and cc = "\<lambda>_ _ _ _. Returned (Some \<lparr>response_status = 201, body = ()\<rparr>) :: (string, unit RestResponse) awaited"
      and cu = "\<lambda>_ _ (_::unit). Returned (Some \<lparr>response_status = 200, body = ()\<rparr>) :: (string, unit RestResponse) awaited"
      and lp = "\<lambda>_ _. Returned (Some \<lparr>response_status = 200, body = ()\<rparr>) :: (string, unit RestResponse) awaited"
      and post = "\<lambda>_ (_::nat list) (_::unit). Returned (Some \<lparr>status = 201, headers_location = ''https://site.scm/api/deployments/latest''\<rparr>) :: (string, AxiosResponse) awaited"
      and rs = "\<lambda>_ _. Returned (Some \<lparr>response_status = 200, body = ()\<rparr>) :: (string, unit RestResponse) awaited"
      and ?r1.0 = "\<lparr>response_status = 200, body = ()\<rparr>"
      and ?r2.0 = "\<lparr>response_status = 201, body = ()\<rparr>"
      and ?r3.0 = "\<lparr>response_status = 200, body = ()\<rparr>"
      and ?r4.0 = "\<lparr>response_status = 200, body = ()\<rparr>"
      and ?r5.0 = "\<lparr>status = 201, headers_location = ''https://site.scm/api/deployments/latest''\<rparr>"
      and ?r6.0 = "\<lparr>response_status = 200, body = ()\<rparr>"]
  by (simp add: isHttpCodeOkOrCreated_def isHttpCodeAccepted_def)

text \<open>
  The push does not succeed on an ok-or-created status: a push call that returns a
  response with status 200 and a \<open>location\<close> header raises \<open>ZipDeployError\<close> instead of
  returning the location.
\<close>

theorem zip_deploy_ok_status_counterexample:
  "isHttpCodeOkOrCreated 200
   \<and> ZipDeployPackage
        (\<lambda>_ (_::nat list) (_::unit). Returned (Some \<lparr>status = 200, headers_location = ''https://site.scm/api/deployments/latest''\<rparr>) :: (string, AxiosResponse) awaited)
        ''https://site.scm/api/zipdeploy'' [80, 75] ()
      = Inl (ZipDeployError None)"
  by (simp add: ZipDeployPackage_def isHttpCodeOkOrCreated_def isHttpCodeAccepted_def)

section \<open>Status classification\<close>

text \<open>
  C9. The class of a status code is a function of the integer alone: equal codes have
  equal classes. Every code falls in exactly one class: the class is \<open>OkOrCreated\<close>
  exactly when the ok-or-created predicate holds, \<open>Accepted\<close> exactly when the accepted
  predicate holds, \<open>Other\<close> exactly when neither holds, and no code satisfies both
  predicates. The poller uses a response through this class only: at any iteration within
  the budget, the branch taken on a response is determined by the class of its status.
\<close>

theorem classify_partition:
  "(code = code' \<longrightarrow> classify code = classify code')
   \<and> (classify code = OkOrCreated) = isHttpCodeOkOrCreated code
   \<and> (classify code = Accepted) = isHttpCodeAccepted code
   \<and> (classify code = Other) = (\<not> isHttpCodeOkOrCreated code \<and> \<not> isHttpCodeAccepted code)
   \<and> \<not> (isHttpCodeOkOrCreated code \<and> isHttpCodeAccepted code)
   \<and> (i < R \<and> g (gets s) loc cfg = Returned (Some r) \<longrightarrow>
      CheckDeployStatus_loop R B g loc cfg i s =
        (case classify (status r) of
           Accepted \<Rightarrow>
             CheckDeployStatus_loop R B g loc cfg (Suc i)
               (s\<lparr>gets := Suc (gets s), sleeps := sleeps s @ [B]\<rparr>)
         | OkOrCreated \<Rightarrow> (Inr (), s\<lparr>gets := Suc (gets s)\<rparr>)
         | Other \<Rightarrow> (Inl (DeployStatusError None), s\<lparr>gets := Suc (gets s)\<rparr>)))"
proof (intro conjI impI)
  assume "i < R \<and> g (gets s) loc cfg = Returned (Some r)"
  then show "CheckDeployStatus_loop R B g loc cfg i s =
      (case classify (status r) of
         Accepted \<Rightarrow>
           CheckDeployStatus_loop R B g loc cfg (Suc i)
             (s\<lparr>gets := Suc (gets s), sleeps := sleeps s @ [B]\<rparr>)
       | OkOrCreated \<Rightarrow> (Inr (), s\<lparr>gets := Suc (gets s)\<rparr>)
       | Other \<Rightarrow> (Inl (DeployStatusError None), s\<lparr>gets := Suc (gets s)\<rparr>))"
    by (simp add: loop_step_by_class)
qed (auto simp: classify_def isHttpCodeOkOrCreated_def isHttpCodeAccepted_def)

theorem classify_partition_witness:
  "classify 200 = OkOrCreated
   \<and> classify 202 = Accepted
   \<and> classify 500 = Other
   \<and> CheckDeployStatus_loop 3 10
        (\<lambda>_ _ _. Returned (Some \<lparr>status = 200, headers_location = []\<rparr>) :: (string, AxiosResponse) awaited)
        ''https://site.scm/api/deployments/latest'' () 0 \<lparr>gets = 0, sleeps = []\<rparr>
      = (Inr (), \<lparr>gets = Suc 0, sleeps = []\<rparr>)"
  using classify_partition [where code = 200 and code' = 200 and R = 3 and B = 10 and i = 0
      and s = "\<lparr>gets = 0, sleeps = []\<rparr>"
      and g = "\<lambda>_ _ _. Returned (Some \<lparr>status = 200, headers_location = []\<rparr>) :: (string, AxiosResponse) awaited"
      and loc = "''https://site.scm/api/deployments/latest''" and cfg = "()"
      and r = "\<lparr>status = 200, headers_location = []\<rparr>"]
    classify_partition [where code = 202 and code' = 202 and R = 3 and B = 10 and i = 0
      and s = "\<lparr>gets = 0, sleeps = []\<rparr>"
      and g = "\<lambda>_ _ _. Returned (Some \<lparr>status = 200, headers_location = []\<rparr>) :: (string, AxiosResponse) awaited"
      and loc = "''https://site.scm/api/deployments/latest''" and cfg = "()"
      and r = "\<lparr>status = 200, headers_location = []\<rparr>"]
    classify_partition [where code = 500 and code' = 500 and R = 3 and B = 10 and i = 0
      and s = "\<lparr>gets = 0, sleeps = []\<rparr>"
      and g = "\<lambda>_ _ _. Returned (Some \<lparr>status = 200, headers_location = []\<rparr>) :: (string, AxiosResponse) awaited"
      and loc = "''https://site.scm/api/deployments/latest''" and cfg = "()"
      and r = "\<lparr>status = 200, headers_location = []\<rparr>"]
  by (simp add: isHttpCodeAccepted_def isHttpCodeOkOrCreated_def)

end
